theory Spec2Isabelle
  imports Main "HOL-Library.Multiset" "HOL-Library.Product_Lexorder"
    "HOL-Library.Char_ord" "HOL-Library.List_Lexorder"
begin

section \<open>Event study core: data model\<close>

text \<open>
  The module \<^verbatim>\<open>core/intraday_event_study.py\<close> works on pandas tables. A timestamp is an
  integer number of clock ticks. A cell holds a value or the missing marker (\<open>None\<close>
  stands for NaN). A table carries its index, its column labels and one row of cells per
  index entry.
\<close>

type_synonym timestamp = int

record 'a DataFrame =
  index :: "timestamp list"
  columns :: "string list"
  rows :: "'a option list list"

text \<open>
  What a caller may hand over where a table is expected: a \<^verbatim>\<open>pd.DataFrame\<close> or any
  other Python object.
\<close>

datatype 'a pyobj = PyDataFrame "'a DataFrame" | PyOther

text \<open>
  \<^verbatim>\<open>relative_grid_indices: Iterable[int]\<close>: either a Python list (a mutable object the
  caller still holds) or another collection such as a tuple, of which \<^verbatim>\<open>list(...)\<close>
  takes a copy.
\<close>

datatype iterable = PyList "int list" | PyTuple "int list"

fun items :: "iterable \<Rightarrow> int list" where
  "items (PyList xs) = xs"
| "items (PyTuple xs) = xs"

text \<open>The exceptions the module can raise.\<close>

datatype error = AssertionError | NameError | KeyError | ValueError | AttributeError
  | LinAlgError | IndexingError | TypeError

text \<open>
  The per-offset diagnostics dictionary maps string keys to values; the caller's
  dictionary maps each offset to such a dictionary. Python dictionaries keep insertion
  order, so both are association lists.
\<close>

datatype info_value = IndexVal "timestamp list" | IntVal int | FreqVal int | ObjVal string

type_synonym info_for_idx = "(string \<times> info_value) list"

type_synonym info_dict = "(int \<times> info_for_idx) list"

text \<open>\<^verbatim>\<open>d[k] = v\<close>: an existing key keeps its position, a new key goes last.\<close>

fun dict_set :: "'k \<Rightarrow> 'v \<Rightarrow> ('k \<times> 'v) list \<Rightarrow> ('k \<times> 'v) list" where
  "dict_set k v [] = [(k, v)]"
| "dict_set k v ((k', v') # d) =
     (if k = k' then (k, v) # d else (k', v') # dict_set k v d)"

text \<open>
  A record of the logger: \<^verbatim>\<open>_LOG.warning("pct_found=%f for periods=%d", ...)\<close>, kept as
  the two sizes whose quotient is \<^verbatim>\<open>pct_found\<close>, and the periods.
\<close>

datatype log_record = Warning nat nat int

text \<open>
  The names bound at module level, in the order the module binds them. A name that is
  neither local to a function, nor in this list, nor a builtin, raises \<^verbatim>\<open>NameError\<close> when
  it is read. None of the names looked up below is a builtin.
\<close>

definition module_globals :: "string list" where
  "module_globals = [''logging'', ''Iterable'', ''Optional'', ''Union'', ''np'', ''pd'',
     ''dbg'', ''_LOG'', ''reindex_event_features'', ''build_local_timeseries'',
     ''_shift_and_select'', ''regression'']"

definition lookup_name :: "string \<Rightarrow> error + info_value" where
  "lookup_name n = (if n \<in> set module_globals then Inr (ObjVal n) else Inl NameError)"

section \<open>Helpers of \<^verbatim>\<open>helpers.dbg\<close>\<close>

text \<open>
  Modelled from the spec: \<^verbatim>\<open>dbg.dassert_monotonic_index\<close> is defined in
  \<^verbatim>\<open>helpers/dbg.py\<close>, which is not among the sources. The spec says that it fails
  unless the index is strictly monotonically increasing (increasing, no duplicates).
  It is applied to timestamp indexes and to the two-level (offset, timestamp) index,
  whose order is lexicographic.
\<close>

definition dassert_monotonic_index :: "('k::linorder) list \<Rightarrow> bool" where
  "dassert_monotonic_index ix = sorted_wrt (<) ix"

section \<open>The pandas operations the module calls\<close>

text \<open>
  \<^verbatim>\<open>DataFrame.shift(periods, freq)\<close>. Without \<^verbatim>\<open>freq\<close> the index stays and the rows move
  by \<^verbatim>\<open>periods\<close> positions, the vacated rows being filled with the missing marker.
  With \<^verbatim>\<open>freq\<close> (a time delta, in ticks) the rows stay and every timestamp moves by
  \<^verbatim>\<open>periods * freq\<close>.
\<close>

definition shift_rows :: "nat \<Rightarrow> 'a option list list \<Rightarrow> int \<Rightarrow> 'a option list list" where
  "shift_rows ncols rs periods =
     map (\<lambda>i. let j = int i - periods
               in if 0 \<le> j \<and> j < int (length rs) then rs ! nat j
                  else replicate ncols None)
         [0 ..< length rs]"

definition shift :: "'a DataFrame \<Rightarrow> int \<Rightarrow> int option \<Rightarrow> 'a DataFrame" where
  "shift df periods freq =
     (case freq of
        None \<Rightarrow> df\<lparr>rows := shift_rows (length (columns df)) (rows df) periods\<rparr>
      | Some f \<Rightarrow> df\<lparr>index := map (\<lambda>t. t + periods * f) (index df)\<rparr>)"

text \<open>\<^verbatim>\<open>Index.intersection\<close> and \<^verbatim>\<open>Index.difference\<close>, in the order of the left index.\<close>

definition intersection :: "timestamp list \<Rightarrow> timestamp list \<Rightarrow> timestamp list" where
  "intersection ix other = filter (\<lambda>t. t \<in> set other) ix"

definition difference :: "timestamp list \<Rightarrow> timestamp list \<Rightarrow> timestamp list" where
  "difference ix other = filter (\<lambda>t. t \<notin> set other) ix"

text \<open>
  \<^verbatim>\<open>df.loc[labels]\<close>: the rows carrying each label, in the order of the labels;
  \<^verbatim>\<open>KeyError\<close> when a label is not in the index.
\<close>

definition loc :: "'a DataFrame \<Rightarrow> timestamp list \<Rightarrow> error + 'a DataFrame" where
  "loc df labels =
     (if \<forall>l \<in> set labels. l \<in> set (index df)
      then (let picked = concat (map (\<lambda>l. filter (\<lambda>(t, r). t = l) (zip (index df) (rows df)))
                                   labels)
            in Inr (df\<lparr>index := map fst picked, rows := map snd picked\<rparr>))
      else Inl KeyError)"

text \<open>
  The result of \<^verbatim>\<open>pd.concat\<close> on a dictionary of tables: a table with a two-level index,
  the dictionary key outside and the table's own label inside.
\<close>

record 'a MultiFrame =
  mindex :: "(int \<times> timestamp) list"
  mcolumns :: "string list"
  mrows :: "'a option list list"

text \<open>
  \<^verbatim>\<open>pd.concat(d)\<close> for a dictionary whose tables all have the same columns (here, those
  of \<^verbatim>\<open>grid_data\<close>): the blocks follow each other in the order of the keys, which for
  the dictionary built below is the order of insertion and the ascending order at once.
  An empty dictionary raises \<^verbatim>\<open>ValueError\<close>.
\<close>

definition concat_frames :: "(int \<times> 'a DataFrame) list \<Rightarrow> error + 'a MultiFrame" where
  "concat_frames d =
     (case d of
        [] \<Rightarrow> Inl ValueError
      | (k0, df0) # _ \<Rightarrow>
          Inr \<lparr>mindex = concat (map (\<lambda>(k, df). map (\<lambda>t. (k, t)) (index df)) d),
               mcolumns = columns df0,
               mrows = concat (map (\<lambda>(k, df). rows df) d)\<rparr>)"

section \<open>Local time series\<close>

text \<open>
  \<^verbatim>\<open>_shift_and_select(idx, grid_data, periods, freq, info)\<close>. The result is the value
  returned or the exception raised, the \<^verbatim>\<open>info\<close> dictionary as the call leaves it, and
  the warnings logged. An \<^verbatim>\<open>info\<close> that is not \<^verbatim>\<open>None\<close> is a dictionary, so that
  \<^verbatim>\<open>dassert_isinstance(info, dict)\<close> holds; \<^verbatim>\<open>dassert(not info)\<close> asks that it be empty. \<^verbatim>\<open>pct_found < 0.9\<close> compares the float quotient of the two sizes
  with the double nearest to nine tenths; for an index of fewer than \<open>10\<^sup>1\<^sup>5\<close> entries
  that is the comparison \<open>10 * |intersection| < 9 * |idx|\<close> of integers, which is what
  the model evaluates.
\<close>

definition shift_and_select ::
  "timestamp list \<Rightarrow> 'a DataFrame \<Rightarrow> int \<Rightarrow> int option \<Rightarrow> info_for_idx option
     \<Rightarrow> (error + 'a DataFrame) \<times> info_for_idx option \<times> log_record list" where
  "shift_and_select idx grid_data periods freq info =
     (let shifted_grid_data = shift grid_data periods freq;
          isect = intersection idx (index shifted_grid_data)
      in if isect = [] then (Inl AssertionError, info, [])
         else
           let warns = (if 10 * length isect < 9 * length idx
                        then [Warning (length isect) (length idx) periods] else [])
           in case loc shifted_grid_data isect of
                Inl e \<Rightarrow> (Inl e, info, warns)
              | Inr selected \<Rightarrow>
                  (case info of
                     None \<Rightarrow> (Inr selected, None, warns)
                   | Some d \<Rightarrow>
                       if d \<noteq> [] then (Inl AssertionError, info, warns)
                       else
                         let d1 = dict_set ''indices_with_no_data''
                                    (IndexVal (difference isect idx)) d;
                             d2 = dict_set ''periods'' (IntVal periods) d1;
                             d3 = (case freq of None \<Rightarrow> d2
                                   | Some f \<Rightarrow> dict_set ''freq'' (FreqVal f) d2)
                         in (case lookup_name ''mode'' of
                               Inl e \<Rightarrow> (Inl e, Some d3, warns)
                             | Inr m \<Rightarrow>
                                 (Inr selected, Some (dict_set ''mode'' m d3), warns))))"

text \<open>
  The loop of \<^verbatim>\<open>build_local_timeseries\<close> over the sorted offsets. Its state is the
  dictionary \<^verbatim>\<open>relative_data\<close>, the caller's \<^verbatim>\<open>info\<close> dictionary and the log. An
  exception leaves the loop with the state reached so far.
\<close>

record 'a loop_state =
  relative_data :: "(int \<times> 'a DataFrame) list"
  info :: "info_dict option"
  log :: "log_record list"

fun gather ::
  "timestamp list \<Rightarrow> 'a DataFrame \<Rightarrow> int option \<Rightarrow> int list \<Rightarrow> 'a loop_state
     \<Rightarrow> error option \<times> 'a loop_state" where
  "gather ev_index grid_data freq [] st = (None, st)"
| "gather ev_index grid_data freq (idx # rest) st =
     (let info_for_idx = (case info st of None \<Rightarrow> None | Some _ \<Rightarrow> Some []);
          (data_at_idx, info_for_idx', warns) =
             shift_and_select ev_index grid_data (- idx) freq info_for_idx;
          st1 = st\<lparr>log := log st @ warns\<rparr>
      in case data_at_idx of
           Inl e \<Rightarrow> (Some e, st1)
         | Inr data \<Rightarrow>
             let st2 = (case (info st1, info_for_idx') of
                          (Some d, Some i) \<Rightarrow> st1\<lparr>info := Some (dict_set idx i d)\<rparr>
                        | _ \<Rightarrow> st1);
                 st3 = st2\<lparr>relative_data := dict_set idx data (relative_data st2)\<rparr>
             in gather ev_index grid_data freq rest st3)"

text \<open>
  What a call of \<^verbatim>\<open>build_local_timeseries\<close> leaves behind: the table returned or the
  exception raised, the objects the caller passed as they are after the call (the two
  tables, the \<^verbatim>\<open>relative_grid_indices\<close> object and the \<^verbatim>\<open>info\<close> dictionary), and the
  warnings logged. The function calls \<^verbatim>\<open>shift\<close>, \<^verbatim>\<open>intersection\<close>, \<^verbatim>\<open>loc\<close> and
  \<^verbatim>\<open>concat\<close> on the tables, which build new objects, and assigns to neither table; it
  calls \<^verbatim>\<open>sort()\<close> on the list and assigns into \<^verbatim>\<open>info\<close>.
\<close>

record 'a outcome =
  result :: "error + 'a MultiFrame"
  events_after :: "'a pyobj"
  grid_data_after :: "'a pyobj"
  rgi_after :: iterable
  info_after :: "info_dict option"
  warnings :: "log_record list"

definition build_local_timeseries ::
  "'a pyobj \<Rightarrow> 'a pyobj \<Rightarrow> iterable \<Rightarrow> int option \<Rightarrow> info_dict option \<Rightarrow> 'a outcome" where
  "build_local_timeseries events grid_data relative_grid_indices freq info0 =
     (let failed = \<lparr>result = Inl AssertionError, events_after = events,
                     grid_data_after = grid_data, rgi_after = relative_grid_indices,
                     info_after = info0, warnings = []\<rparr>
      in case events of
           PyOther \<Rightarrow> failed
         | PyDataFrame ev \<Rightarrow>
      (case grid_data of
           PyOther \<Rightarrow> failed
         | PyDataFrame gd \<Rightarrow>
      if \<not> dassert_monotonic_index (index ev) then failed
      else if \<not> dassert_monotonic_index (index gd) then failed
      else if items relative_grid_indices = [] then failed
      else
        let sorted_indices = sort (items relative_grid_indices);
            rgi' = (case relative_grid_indices of
                      PyList _ \<Rightarrow> PyList sorted_indices
                    | PyTuple xs \<Rightarrow> PyTuple xs);
            (err, st) = gather (index ev) gd freq sorted_indices
                          \<lparr>relative_data = [], info = info0, log = []\<rparr>;
            res = (case err of
                     Some e \<Rightarrow> Inl e
                   | None \<Rightarrow>
                       (case concat_frames (relative_data st) of
                          Inl e \<Rightarrow> Inl e
                        | Inr df \<Rightarrow>
                            if dassert_monotonic_index (mindex df) then Inr df
                            else Inl AssertionError))
        in \<lparr>result = res, events_after = events, grid_data_after = grid_data,
            rgi_after = rgi', info_after = info st, warnings = log st\<rparr>))"

text \<open>
  The checks of lines 129 to 136 taken together: both arguments are tables, both indexes
  pass \<^verbatim>\<open>dassert_monotonic_index\<close>, and the offsets are not empty.
\<close>

definition input_checks_pass :: "'a pyobj \<Rightarrow> 'a pyobj \<Rightarrow> iterable \<Rightarrow> bool" where
  "input_checks_pass events grid_data relative_grid_indices =
     (case events of
        PyOther \<Rightarrow> False
      | PyDataFrame ev \<Rightarrow>
          (case grid_data of
             PyOther \<Rightarrow> False
           | PyDataFrame gd \<Rightarrow>
               dassert_monotonic_index (index ev) \<and> dassert_monotonic_index (index gd)
               \<and> items relative_grid_indices \<noteq> []))"

section \<open>Event/data alignment\<close>






subsection \<open>\<^verbatim>\<open>Index.get_indexer\<close>\<close>











subsection \<open>\<^verbatim>\<open>Index.reindex\<close> and \<^verbatim>\<open>DataFrame.reindex\<close>\<close>










subsection \<open>The fill policy, as a property of labels\<close>
















section \<open>Modeling\<close>

text \<open>
  A \<^verbatim>\<open>pd.Series\<close> of floats: its index and its values, \<open>None\<close> standing for NaN.
\<close>

record 'f Series =
  sindex :: "timestamp list"
  svalues :: "'f option list"

text \<open>
  The floating-point routines of numpy that \<^verbatim>\<open>regression\<close> calls are parameters of the
  model, one for each line of arithmetic; \<open>'f\<close> is the type of the floats. Those that
  numpy lets raise (\<^verbatim>\<open>LinAlgError\<close> from \<^verbatim>\<open>lstsq\<close> and from \<^verbatim>\<open>inv\<close> on a singular
  matrix, \<^verbatim>\<open>ValueError\<close> from operands that do not broadcast) return an exception or a
  value; a division never raises, whatever the divisor.
\<close>

record 'f numpy =
  np_mean :: "'f option list \<Rightarrow> 'f option"
  np_tss :: "'f option list \<Rightarrow> 'f option \<Rightarrow> 'f option"
  np_lstsq :: "'f option list list \<Rightarrow> 'f option list
                 \<Rightarrow> error + ('f option list \<times> 'f option list)"
  np_r_sq :: "'f option list \<Rightarrow> 'f option \<Rightarrow> 'f option list"
  np_xtx_inv :: "'f option list list \<Rightarrow> error + 'f option list list"
  np_divide :: "'f option list \<Rightarrow> int \<Rightarrow> 'f option list"
  np_multiply :: "'f option list list \<Rightarrow> 'f option list \<Rightarrow> error + 'f option list list"
  np_z_score :: "'f option list \<Rightarrow> 'f option list \<Rightarrow> 'f option list list
                   \<Rightarrow> error + 'f option list"
  np_matmul :: "'f option list list \<Rightarrow> 'f option list \<Rightarrow> 'f option list"

text \<open>
  The attributes of the \<^verbatim>\<open>numpy\<close> module that matter here: those the module reads
  that numpy provides, and \<^verbatim>\<open>matmul\<close>, the name of the matrix product. Reading another
  attribute of the module raises \<^verbatim>\<open>AttributeError\<close>; numpy has no \<^verbatim>\<open>mat_mul\<close>.
\<close>

definition numpy_attributes :: "string list" where
  "numpy_attributes = [''isnan'', ''count_nonzero'', ''mean'', ''linalg'', ''sqrt'',
     ''diagonal'', ''array2string'', ''matmul'']"

definition np_getattr :: "string \<Rightarrow> error + string" where
  "np_getattr n = (if n \<in> set numpy_attributes then Inr n else Inl AttributeError)"

text \<open>The values stored in the diagnostics dictionary of \<^verbatim>\<open>regression\<close>.\<close>

datatype 'f reg_value = Count nat | Scalar "'f option" | Array "'f option list"
  | Matrix "'f option list list"

type_synonym 'f reg_info = "(string \<times> 'f reg_value) list"

text \<open>\<^verbatim>\<open>xs[mask]\<close> by position.\<close>

definition select :: "bool list \<Rightarrow> 'b list \<Rightarrow> 'b list" where
  "select flags xs = map snd (filter fst (zip flags xs))"

text \<open>
  A boolean Series used as a row indexer is first aligned with the index of the table
  it selects from: it is used as it is when the two indexes are equal, looked up label
  by label when its index is free of duplicates and holds every label of the table, and
  refused with \<^verbatim>\<open>IndexingError\<close> otherwise.
\<close>

definition align_mask ::
  "timestamp list \<Rightarrow> timestamp list \<Rightarrow> bool list \<Rightarrow> error + bool list" where
  "align_mask ix mask_index flags =
     (if ix = mask_index then Inr flags
      else if distinct mask_index \<and> list_all (\<lambda>t. t \<in> set mask_index) ix
      then Inr (map (\<lambda>t. case map_of (zip mask_index flags) t of
                            Some b \<Rightarrow> b | None \<Rightarrow> False) ix)
      else Inl IndexingError)"

text \<open>
  The block \<^verbatim>\<open>if info is not None: ...\<close> of \<^verbatim>\<open>regression\<close>: the dictionary must be
  empty, and receives the nine statistics under the keys the source uses.
\<close>

definition fill_reg_info ::
  "'f reg_info option \<Rightarrow> nat \<Rightarrow> 'f option \<Rightarrow> 'f option \<Rightarrow> 'f option list \<Rightarrow> 'f option list
     \<Rightarrow> 'f option list \<Rightarrow> 'f option list \<Rightarrow> 'f option list list \<Rightarrow> 'f option list
     \<Rightarrow> error + 'f reg_info option" where
  "fill_reg_info info0 nobs y_mean tss beta_hat rss r_sq sigma_hat_sq beta_hat_covar
       beta_hat_z_score =
     (case info0 of
        None \<Rightarrow> Inr None
      | Some d \<Rightarrow>
          if d \<noteq> [] then Inl AssertionError
          else Inr (Some
            (dict_set ''beta_hat_z_score=%s'' (Array beta_hat_z_score)
            (dict_set ''beta_hat_covar=%s'' (Matrix beta_hat_covar)
            (dict_set ''sigma_hat_sq=%s'' (Array sigma_hat_sq)
            (dict_set ''r^2=%f'' (Array r_sq)
            (dict_set ''rss=%f'' (Array rss)
            (dict_set ''beta=%s'' (Array beta_hat)
            (dict_set ''tss=%f'' (Scalar tss)
            (dict_set ''y_mean=%f'' (Scalar y_mean)
            (dict_set ''nobs (resp)=%d'' (Count nobs) d)))))))))))"

text \<open>
  \<^verbatim>\<open>regression(x, y, info)\<close>: the Series returned or the exception raised, and the
  caller's \<^verbatim>\<open>info\<close> dictionary after the call.
\<close>

definition regression ::
  "'f numpy \<Rightarrow> 'f DataFrame \<Rightarrow> 'f Series \<Rightarrow> 'f reg_info option
     \<Rightarrow> (error + 'f Series) \<times> 'f reg_info option" where
  "regression np x y info0 =
     (let nan_filter = map (\<lambda>v. v \<noteq> None) (svalues y);
          nobs = length (filter id nan_filter)
      in (case align_mask (index x) (sindex y) nan_filter of
           Inl e \<Rightarrow> (Inl e, info0)
         | Inr x_filter \<Rightarrow>
      (let xf = x\<lparr>index := select x_filter (index x), rows := select x_filter (rows x)\<rparr>;
           yf = y\<lparr>sindex := select nan_filter (sindex y),
                  svalues := select nan_filter (svalues y)\<rparr>;
           y_mean = np_mean np (svalues yf);
           tss = np_tss np (svalues yf) y_mean
       in (case np_lstsq np (rows xf) (svalues yf) of
           Inl e \<Rightarrow> (Inl e, info0)
         | Inr (beta_hat, rss) \<Rightarrow>
      (let r_sq = np_r_sq np rss tss
       in (case np_xtx_inv np (rows xf) of
           Inl e \<Rightarrow> (Inl e, info0)
         | Inr xtx_inv \<Rightarrow>
      (let sigma_hat_sq = np_divide np rss (int nobs - int (length (columns xf)))
       in (case np_multiply np xtx_inv sigma_hat_sq of
           Inl e \<Rightarrow> (Inl e, info0)
         | Inr beta_hat_covar \<Rightarrow>
      (case np_z_score np beta_hat sigma_hat_sq xtx_inv of
           Inl e \<Rightarrow> (Inl e, info0)
         | Inr beta_hat_z_score \<Rightarrow>
      (case fill_reg_info info0 nobs y_mean tss beta_hat rss r_sq sigma_hat_sq
              beta_hat_covar beta_hat_z_score of
           Inl e \<Rightarrow> (Inl e, info0)
         | Inr info' \<Rightarrow>
      (case np_getattr ''mat_mul'' of
           Inl e \<Rightarrow> (Inl e, info')
         | Inr _ \<Rightarrow>
             (Inr \<lparr>sindex = sindex yf,
                   svalues = np_matmul np (rows xf) beta_hat\<rparr>, info'))))))))))))"

section \<open>Example tables\<close>

text \<open>
  Three events at ticks 1, 2, 3; a grid of four bars that covers them; and a grid of two
  bars that misses the third event.
\<close>

definition events_ex :: "int DataFrame" where
  "events_ex = \<lparr>index = [1, 2, 3], columns = [''indicator''],
                 rows = [ [Some 1], [Some 1], [Some 1] ]\<rparr>"

definition grid_ex :: "int DataFrame" where
  "grid_ex = \<lparr>index = [1, 2, 3, 4], columns = [''response''],
               rows = [ [Some 10], [Some 20], [Some 30], [Some 40] ]\<rparr>"

definition grid_gap_ex :: "int DataFrame" where
  "grid_gap_ex = \<lparr>index = [1, 2], columns = [''response''],
                   rows = [ [Some 10], [Some 20] ]\<rparr>"

definition events_unsorted_ex :: "int DataFrame" where
  "events_unsorted_ex = \<lparr>index = [2, 1], columns = [''indicator''],
                          rows = [ [Some 1], [Some 1] ]\<rparr>"










text \<open>
  A design matrix of one predictor column, and a response of which one value only is
  not NaN.
\<close>

definition x_ex :: "int DataFrame" where
  "x_ex = \<lparr>index = [1, 2, 3], columns = [''const''],
            rows = [ [Some 1], [Some 1], [Some 1] ]\<rparr>"

definition y_one_ex :: "int Series" where
  "y_one_ex = \<lparr>sindex = [1, 2, 3], svalues = [None, Some 2, None]\<rparr>"

section \<open>Facts about the helpers\<close>

lemma sort_cong_mset: "mset xs = mset ys \<Longrightarrow> sort xs = sort (ys :: int list)"
  by (metis properties_for_sort mset_sort sorted_sort)

lemma mset_eq_Nil_iff: "mset xs = mset ys \<Longrightarrow> (xs = []) = (ys = [])"
  by (metis mset_zero_iff)

lemma set_intersection: "set (intersection ix other) = set ix \<inter> set other"
  by (auto simp: intersection_def)

lemma loc_no_KeyError:
  "set labels \<subseteq> set (index df) \<Longrightarrow> \<exists>s. loc df labels = Inr s"
  by (auto simp: loc_def Let_def)

lemma loc_intersection_ok:
  "\<exists>s. loc df (intersection ix (index df)) = Inr s"
  by (rule loc_no_KeyError) (simp add: set_intersection)

text \<open>No binding of \<^verbatim>\<open>mode\<close> exists: reading it raises.\<close>

lemma lookup_mode: "lookup_name ''mode'' = Inl NameError"
  by (simp add: lookup_name_def module_globals_def)

subsection \<open>Which exceptions \<^verbatim>\<open>_shift_and_select\<close> and the loop raise\<close>

lemma sas_empty:
  "intersection ix (index (shift gd p f)) = []
     \<Longrightarrow> fst (shift_and_select ix gd p f i) = Inl AssertionError"
  by (simp add: shift_and_select_def Let_def)

lemma sas_error_kinds:
  assumes "fst (shift_and_select ix gd p f i) = Inl e"
  shows "e = AssertionError \<or> (e = NameError \<and> i \<noteq> None)"
proof -
  obtain s where s: "loc (shift gd p f) (intersection ix (index (shift gd p f))) = Inr s"
    using loc_intersection_ok by blast
  show ?thesis
    using assms s
    by (auto simp: shift_and_select_def Let_def lookup_mode split: if_splits option.splits)
qed

lemma gather_error_kinds:
  "fst (gather ev gd f ks st) = Some e
     \<Longrightarrow> e = AssertionError \<or> (e = NameError \<and> info st \<noteq> None)"
proof (induction ks arbitrary: st)
  case Nil
  then show ?case by simp
next
  case (Cons k ks)
  let ?i = "case info st of None \<Rightarrow> None | Some _ \<Rightarrow> Some ([] :: info_for_idx)"
  obtain d i ws where sas: "shift_and_select ev gd (- k) f ?i = (d, i, ws)"
    by (cases "shift_and_select ev gd (- k) f ?i") auto
  show ?case
  proof (cases d)
    case (Inl e')
    then have "e' = e" using Cons.prems sas by (simp add: Let_def)
    moreover have "e' = AssertionError \<or> (e' = NameError \<and> ?i \<noteq> None)"
      by (rule sas_error_kinds[of ev gd "- k" f ?i e']) (simp add: sas Inl)
    ultimately show ?thesis by (cases "info st") auto
  next
    case (Inr data)
    show ?thesis
    proof (cases "info st")
      case None
      let ?st' = "st\<lparr>log := log st @ ws,
                     relative_data := dict_set k data (relative_data st)\<rparr>"
      have "fst (gather ev gd f ks ?st') = Some e"
        using Cons.prems sas Inr None by (simp add: Let_def)
      then have "e = AssertionError \<or> (e = NameError \<and> info ?st' \<noteq> None)"
        by (rule Cons.IH)
      then show ?thesis using None by simp
    next
      case (Some a)
      have "\<exists>st'. gather ev gd f (k # ks) st = gather ev gd f ks st'"
        using sas Inr Some by (cases i) (auto simp add: Let_def)
      then obtain st' where "fst (gather ev gd f ks st') = Some e"
        using Cons.prems by auto
      then have "e = AssertionError \<or> (e = NameError \<and> info st' \<noteq> None)"
        by (rule Cons.IH)
      then show ?thesis using Some by auto
    qed
  qed
qed

lemma gather_empty_fails:
  "k \<in> set ks \<Longrightarrow> intersection ev (index (shift gd (- k) f)) = []
     \<Longrightarrow> fst (gather ev gd f ks st) \<noteq> None"
proof (induction ks arbitrary: st)
  case Nil
  then show ?case by simp
next
  case (Cons a ks)
  let ?i = "case info st of None \<Rightarrow> None | Some _ \<Rightarrow> Some ([] :: info_for_idx)"
  obtain d i ws where sas: "shift_and_select ev gd (- a) f ?i = (d, i, ws)"
    by (cases "shift_and_select ev gd (- a) f ?i") auto
  show ?case
  proof (cases d)
    case (Inl e)
    then show ?thesis using sas by (simp add: Let_def)
  next
    case (Inr data)
    have "a \<noteq> k"
    proof
      assume "a = k"
      then have "fst (shift_and_select ev gd (- a) f ?i) = Inl AssertionError"
        using Cons.prems(2) by (simp add: sas_empty)
      then show False using sas Inr by simp
    qed
    then have "k \<in> set ks" using Cons.prems(1) by simp
    then show ?thesis
      using sas Inr Cons.IH[OF _ Cons.prems(2)]
      by (simp add: Let_def)
  qed
qed

subsection \<open>A call with a diagnostics dictionary\<close>

lemma sas_with_info_fails:
  "\<exists>e. fst (shift_and_select ix gd p f (Some d)) = Inl e"
proof -
  obtain s where s: "loc (shift gd p f) (intersection ix (index (shift gd p f))) = Inr s"
    using loc_intersection_ok by blast
  show ?thesis
    using s by (simp add: shift_and_select_def Let_def lookup_mode)
qed

lemma gather_with_info_fails:
  assumes "info st = Some d" and "ks \<noteq> []"
  shows "\<exists>e st'. gather ev gd f ks st = (Some e, st') \<and> info st' = Some d"
proof -
  obtain k rest where ks: "ks = k # rest" using assms(2) by (cases ks) auto
  obtain r i ws where sas: "shift_and_select ev gd (- k) f (Some []) = (r, i, ws)"
    by (cases "shift_and_select ev gd (- k) f (Some [])") auto
  obtain e where "r = Inl e"
    using sas_with_info_fails[of ev gd "- k" f "[]"] sas by auto
  then show ?thesis
    using sas assms(1) ks by (simp add: Let_def)
qed

text \<open>
  Whenever a diagnostics dictionary is passed, the call raises and the dictionary is
  left as it was: the first offset either fails the assertion on the intersection or
  reaches the read of \<^verbatim>\<open>mode\<close>, before \<^verbatim>\<open>info[idx]\<close> is assigned.
\<close>

lemma diagnostics_request_always_fails:
  assumes "info0 = Some d"
  shows "(\<exists>e. result (build_local_timeseries events grid_data rgi freq info0) = Inl e)
       \<and> info_after (build_local_timeseries events grid_data rgi freq info0) = Some d"
proof (cases "input_checks_pass events grid_data rgi")
  case False
  then show ?thesis
    using assms
    by (cases events; cases grid_data)
       (auto simp: input_checks_pass_def build_local_timeseries_def Let_def)
next
  case True
  then obtain ev gd where ev: "events = PyDataFrame ev" and gd: "grid_data = PyDataFrame gd"
    by (cases events; cases grid_data) (auto simp: input_checks_pass_def)
  let ?st0 = "\<lparr>relative_data = [], info = info0, log = []\<rparr> :: 'a loop_state"
  have "items rgi \<noteq> []"
    using True ev gd by (simp add: input_checks_pass_def)
  then have "sort (items rgi) \<noteq> []"
    by (metis length_0_conv length_sort)
  then obtain e st' where g: "gather (index ev) gd freq (sort (items rgi)) ?st0 = (Some e, st')"
      and i: "info st' = Some d"
    using gather_with_info_fails[of ?st0 d "sort (items rgi)" "index ev" gd freq] assms
    by auto
  show ?thesis
    using True ev gd g i
    by (simp add: input_checks_pass_def build_local_timeseries_def Let_def)
qed

subsection \<open>Shifting and selecting keep a table well formed\<close>

lemma length_shift_rows: "length (shift_rows n rs p) = length rs"
  by (simp add: shift_rows_def)

lemma shift_columns: "columns (shift gd p f) = columns gd"
  by (cases f) (simp_all add: shift_def)

lemma shift_wf:
  "length (rows gd) = length (index gd)
     \<Longrightarrow> length (rows (shift gd p f)) = length (index (shift gd p f))"
  by (cases f) (simp_all add: shift_def length_shift_rows)

lemma shift_distinct:
  "distinct (index gd) \<Longrightarrow> distinct (index (shift gd p f))"
  by (cases f) (simp_all add: shift_def distinct_map inj_on_def)

lemma pick_one:
  "distinct ix \<Longrightarrow> length rs = length ix \<Longrightarrow> l \<in> set ix
     \<Longrightarrow> \<exists>r. filter (\<lambda>(t, r). t = l) (zip ix rs) = [(l, r)] \<and> (l, r) \<in> set (zip ix rs)"
proof (induction ix arbitrary: rs)
  case Nil
  then show ?case by simp
next
  case (Cons a ix)
  then obtain r rs' where rs: "rs = r # rs'" by (cases rs) auto
  have none: "a \<notin> set ix \<Longrightarrow> filter (\<lambda>(t, r). t = a) (zip ix rs') = []"
    by (auto simp: filter_empty_conv dest: set_zip_leftD)
  show ?case
  proof (cases "l = a")
    case True
    then show ?thesis using Cons.prems rs none by simp
  next
    case False
    then have "l \<in> set ix" using Cons.prems by simp
    then obtain r' where "filter (\<lambda>(t, r). t = l) (zip ix rs') = [(l, r')]"
        "(l, r') \<in> set (zip ix rs')"
      using Cons.IH[of rs'] Cons.prems rs by auto
    then show ?thesis using False rs by simp
  qed
qed

lemma picked_index:
  assumes "distinct ix" and "length rs = length ix" and "set labels \<subseteq> set ix"
  shows "map fst (concat (map (\<lambda>l. filter (\<lambda>(t, r). t = l) (zip ix rs)) labels)) = labels"
  using assms(3)
proof (induction labels)
  case Nil
  then show ?case by simp
next
  case (Cons l labels)
  then obtain r where "filter (\<lambda>(t, r). t = l) (zip ix rs) = [(l, r)]"
    using pick_one[OF assms(1,2), of l] by auto
  then show ?case using Cons by simp
qed

lemma picked_subset:
  "set (concat (map (\<lambda>l. filter (\<lambda>(t, r). t = l) (zip ix rs)) labels))
     = {(t, r). (t, r) \<in> set (zip ix rs) \<and> t \<in> set labels}"
  by auto

lemma loc_index:
  assumes "distinct (index df)" and "length (rows df) = length (index df)"
      and "set labels \<subseteq> set (index df)"
  shows "\<exists>s. loc df labels = Inr s \<and> index s = labels \<and> columns s = columns df
           \<and> length (rows s) = length labels
           \<and> set (zip (index s) (rows s))
               = {(t, r). (t, r) \<in> set (zip (index df) (rows df)) \<and> t \<in> set labels}"
proof -
  let ?picked = "concat (map (\<lambda>l. filter (\<lambda>(t, r). t = l) (zip (index df) (rows df))) labels)"
  let ?s = "df\<lparr>index := map fst ?picked, rows := map snd ?picked\<rparr>"
  have l: "loc df labels = Inr ?s"
    using assms(3) by (auto simp: loc_def Let_def)
  have i: "index ?s = labels"
    using picked_index[OF assms] by simp
  have n: "length (rows ?s) = length labels"
    using arg_cong[OF picked_index[OF assms], of length] by simp
  have z: "zip (index ?s) (rows ?s) = ?picked"
    by (simp add: zip_map_fst_snd)
  show ?thesis
  proof (intro exI conjI)
    show "loc df labels = Inr ?s" by (rule l)
    show "index ?s = labels" by (rule i)
    show "columns ?s = columns df" by simp
    show "length (rows ?s) = length labels" by (rule n)
    show "set (zip (index ?s) (rows ?s))
               = {(t, r). (t, r) \<in> set (zip (index df) (rows df)) \<and> t \<in> set labels}"
      unfolding z by (rule picked_subset)
  qed
qed


lemma intersection_strict:
  "sorted_wrt (<) ix \<Longrightarrow> sorted_wrt (<) (intersection ix other)"
  by (simp add: intersection_def sorted_wrt_filter)

text \<open>What \<open>shift_and_select\<close> returns when it returns.\<close>

lemma sas_Inr:
  assumes "distinct (index gd)" and "length (rows gd) = length (index gd)"
      and "fst (shift_and_select ix gd p f i) = Inr s"
  shows "index s = intersection ix (index (shift gd p f))
       \<and> columns s = columns gd
       \<and> length (rows s) = length (index s)
       \<and> set (zip (index s) (rows s))
           = {(t, r). (t, r) \<in> set (zip (index (shift gd p f)) (rows (shift gd p f)))
                      \<and> t \<in> set ix}"
proof -
  let ?sh = "shift gd p f"
  let ?is = "intersection ix (index ?sh)"
  have sub: "set ?is \<subseteq> set (index ?sh)"
    by (simp add: set_intersection)
  obtain s' where l: "loc ?sh ?is = Inr s'" and i: "index s' = ?is"
      and c: "columns s' = columns ?sh" and n: "length (rows s') = length ?is"
      and z: "set (zip (index s') (rows s'))
               = {(t, r). (t, r) \<in> set (zip (index ?sh) (rows ?sh)) \<and> t \<in> set ?is}"
    using loc_index[OF shift_distinct[OF assms(1)] shift_wf[OF assms(2)] sub] by blast
  have "s = s'"
    using assms(3) l
    by (auto simp: shift_and_select_def Let_def lookup_mode
          split: if_splits option.splits)
  moreover have "{(t, r). (t, r) \<in> set (zip (index ?sh) (rows ?sh)) \<and> t \<in> set ?is}
      = {(t, r). (t, r) \<in> set (zip (index ?sh) (rows ?sh)) \<and> t \<in> set ix}"
    by (auto simp: set_intersection dest: set_zip_leftD)
  ultimately show ?thesis
    using i c n z by (simp add: shift_columns)
qed

text \<open>Without a diagnostics dictionary a non-empty intersection is all it takes.\<close>

lemma sas_no_info:
  assumes "distinct (index gd)" and "length (rows gd) = length (index gd)"
      and "intersection ix (index (shift gd p f)) \<noteq> []"
  shows "\<exists>s. shift_and_select ix gd p f None
           = (Inr s, None,
              if 10 * length (intersection ix (index (shift gd p f))) < 9 * length ix
              then [Warning (length (intersection ix (index (shift gd p f)))) (length ix) p]
              else [])"
proof -
  obtain s where "loc (shift gd p f) (intersection ix (index (shift gd p f))) = Inr s"
    using loc_intersection_ok by blast
  then show ?thesis
    using assms(3) by (simp add: shift_and_select_def Let_def)
qed

lemma dict_set_keys:
  "map fst (dict_set k v d) = (if k \<in> fst ` set d then map fst d else map fst d @ [k])"
proof (induction d)
  case Nil
  then show ?case by simp
next
  case (Cons a d)
  obtain k' v' where a: "a = (k', v')" by (cases a)
  show ?case
  proof (cases "k = k'")
    case True
    then show ?thesis using a by simp
  next
    case False
    then show ?thesis using a Cons.IH by (cases "k \<in> fst ` set d") auto
  qed
qed

lemma dict_set_set:
  "distinct (map fst d)
     \<Longrightarrow> set (dict_set k v d) = insert (k, v) {(k', v'). (k', v') \<in> set d \<and> k' \<noteq> k}"
proof (induction d)
  case Nil
  then show ?case by simp
next
  case (Cons a d)
  obtain k' v' where a: "a = (k', v')" by (cases a)
  show ?case
  proof (cases "k = k'")
    case True
    have "\<And>b. (k', b) \<notin> set d"
      using Cons.prems a by (auto simp: image_iff)
    then show ?thesis using a True by auto
  next
    case False
    then show ?thesis using a Cons by auto
  qed
qed

lemma dict_set_sorted:
  assumes "sorted_wrt (<) (map fst d)" and "\<forall>a\<in>fst ` set d. a \<le> (k :: int)"
  shows "sorted_wrt (<) (map fst (dict_set k v d))"
proof (cases "k \<in> fst ` set d")
  case True
  then show ?thesis using assms(1) by (simp add: dict_set_keys)
next
  case False
  have "\<forall>a\<in>fst ` set d. a < k"
  proof
    fix a assume a: "a \<in> fst ` set d"
    then have "a \<le> k" using assms(2) by blast
    moreover have "a \<noteq> k" using a False by blast
    ultimately show "a < k" by simp
  qed
  then show ?thesis
    using False assms(1) by (simp add: dict_set_keys sorted_wrt_append)
qed


lemma dict_set_key_set: "fst ` set (dict_set k v d) = insert k (fst ` set d)"
proof -
  have "set (map fst (dict_set k v d)) = insert k (set (map fst d))"
    by (auto simp: dict_set_keys)
  then show ?thesis by simp
qed

lemma gather_step_no_info:
  assumes "info st = None"
      and "shift_and_select ev gd (- k) f None = (Inr s, None, ws)"
  shows "gather ev gd f (k # ks) st
           = gather ev gd f ks
               (st\<lparr>log := log st @ ws,
                    relative_data := dict_set k s (relative_data st)\<rparr>)"
  using assms by (simp add: Let_def)

lemma gather_no_info:
  assumes "distinct (index gd)" and "length (rows gd) = length (index gd)"
      and "\<forall>k\<in>set ks. intersection ev (index (shift gd (- k) f)) \<noteq> []"
      and "info st = None"
      and "sorted ks"
      and "sorted_wrt (<) (map fst (relative_data st))"
      and "\<forall>a\<in>fst ` set (relative_data st). \<forall>k\<in>set ks. a \<le> k"
      and "\<forall>(k, s)\<in>set (relative_data st).
             fst (shift_and_select ev gd (- k) f None) = Inr s"
  shows "\<exists>st'. gather ev gd f ks st = (None, st') \<and> info st' = None
           \<and> sorted_wrt (<) (map fst (relative_data st'))
           \<and> fst ` set (relative_data st') = fst ` set (relative_data st) \<union> set ks
           \<and> (\<forall>(k, s)\<in>set (relative_data st').
                 fst (shift_and_select ev gd (- k) f None) = Inr s)
           \<and> set (log st') = set (log st)
                \<union> (\<Union>k\<in>set ks. set (snd (snd (shift_and_select ev gd (- k) f None))))"
  using assms(3-)
proof (induction ks arbitrary: st)
  case Nil
  then show ?case by simp
next
  case (Cons k ks)
  have "intersection ev (index (shift gd (- k) f)) \<noteq> []"
    using Cons.prems(1) by simp
  then obtain s ws where sas: "shift_and_select ev gd (- k) f None = (Inr s, None, ws)"
    using sas_no_info[OF assms(1,2), of ev "- k" f] by blast
  let ?st = "st\<lparr>log := log st @ ws,
                 relative_data := dict_set k s (relative_data st)\<rparr>"
  have step: "gather ev gd f (k # ks) st = gather ev gd f ks ?st"
    using Cons.prems(2) sas by (rule gather_step_no_info)
  have le_k: "\<forall>a\<in>fst ` set (relative_data st). a \<le> k"
    using Cons.prems(5) by simp
  have dist: "distinct (map fst (relative_data st))"
    using Cons.prems(4) strict_sorted_iff by blast
  have p1: "\<forall>k\<in>set ks. intersection ev (index (shift gd (- k) f)) \<noteq> []"
    using Cons.prems(1) by simp
  have p2: "info ?st = None"
    using Cons.prems(2) by simp
  have p3: "sorted ks"
    using Cons.prems(3) by simp
  have p4: "sorted_wrt (<) (map fst (relative_data ?st))"
    using dict_set_sorted[OF Cons.prems(4) le_k] by simp
  have p5: "\<forall>a\<in>fst ` set (relative_data ?st). \<forall>k'\<in>set ks. a \<le> k'"
  proof (intro ballI)
    fix a k' assume a: "a \<in> fst ` set (relative_data ?st)" and k': "k' \<in> set ks"
    have "a = k \<or> a \<in> fst ` set (relative_data st)"
      using a by (simp add: dict_set_key_set)
    moreover have "k \<le> k'" using Cons.prems(3) k' by simp
    moreover have "a \<in> fst ` set (relative_data st) \<Longrightarrow> a \<le> k'"
      using Cons.prems(5) k' by auto
    ultimately show "a \<le> k'" by blast
  qed
  have p6: "\<forall>(k', s')\<in>set (relative_data ?st).
             fst (shift_and_select ev gd (- k') f None) = Inr s'"
    using Cons.prems(6) sas by (auto simp: dict_set_set[OF dist])
  obtain st' where g: "gather ev gd f ks ?st = (None, st')" and i: "info st' = None"
      and s: "sorted_wrt (<) (map fst (relative_data st'))"
      and ks: "fst ` set (relative_data st') = fst ` set (relative_data ?st) \<union> set ks"
      and inv: "\<forall>(k, s)\<in>set (relative_data st').
                 fst (shift_and_select ev gd (- k) f None) = Inr s"
      and lg: "set (log st') = set (log ?st)
                \<union> (\<Union>k\<in>set ks. set (snd (snd (shift_and_select ev gd (- k) f None))))"
    using Cons.IH[OF p1 p2 p3 p4 p5 p6] by blast
  have ks': "fst ` set (relative_data st') = fst ` set (relative_data st) \<union> set (k # ks)"
    using ks by (simp add: dict_set_key_set)
  have lg': "set (log st') = set (log st)
      \<union> (\<Union>k\<in>set (k # ks). set (snd (snd (shift_and_select ev gd (- k) f None))))"
    using lg sas by auto
  show ?case
    unfolding step using g i s ks' inv lg' by blast
qed


subsection \<open>The concatenated table\<close>

lemma block_keys_strict:
  "sorted_wrt (<) (ix :: int list) \<Longrightarrow> sorted_wrt (<) (map (\<lambda>t. (k :: int, t)) ix)"
  by (simp add: sorted_wrt_map less_prod_def)

lemma concat_keys_strict:
  assumes "sorted_wrt (<) (map fst d)"
      and "\<forall>(k, s)\<in>set d. sorted_wrt (<) (index s)"
  shows "sorted_wrt (<)
           (concat (map (\<lambda>(k, df). map (\<lambda>t. (k :: int, t)) (index df)) d))"
  using assms
proof (induction d)
  case Nil
  then show ?case by simp
next
  case (Cons a d)
  obtain k s where a: "a = (k, s)" by (cases a)
  have blk: "sorted_wrt (<) (map (\<lambda>t. (k, t)) (index s))"
    using Cons.prems(2) a by (simp add: block_keys_strict)
  have rest: "sorted_wrt (<)
           (concat (map (\<lambda>(k, df). map (\<lambda>t. (k :: int, t)) (index df)) d))"
    using Cons by simp
  have cross: "\<forall>x\<in>set (map (\<lambda>t. (k, t)) (index s)).
         \<forall>y\<in>set (concat (map (\<lambda>(k, df). map (\<lambda>t. (k :: int, t)) (index df)) d)). x < y"
    using Cons.prems(1) a by (auto simp: less_prod_def)
  show ?case
    using a blk rest cross by (simp add: sorted_wrt_append)
qed

lemma concat_keys_set:
  "set (concat (map (\<lambda>(k, df). map (\<lambda>t. (k :: int, t)) (index df)) d))
     = {(k, t). \<exists>s. (k, s) \<in> set d \<and> t \<in> set (index s)}"
  by auto

lemma zip_concat_blocks:
  "\<forall>(k, s)\<in>set d. length (rows s) = length (index s)
     \<Longrightarrow> zip (concat (map (\<lambda>(k, df). map (\<lambda>t. (k :: int, t)) (index df)) d))
             (concat (map (\<lambda>(k, df). rows df) d))
         = concat (map (\<lambda>(k, df). zip (map (\<lambda>t. (k, t)) (index df)) (rows df)) d)"
proof (induction d)
  case Nil
  then show ?case by simp
next
  case (Cons a d)
  obtain k s where a: "a = (k, s)" by (cases a)
  show ?case
    using Cons a by simp
qed

lemma concat_frames_Inr:
  "d \<noteq> [] \<Longrightarrow> \<exists>df. concat_frames d = Inr df
      \<and> mindex df = concat (map (\<lambda>(k, df). map (\<lambda>t. (k, t)) (index df)) d)
      \<and> mrows df = concat (map (\<lambda>(k, df). rows df) d)
      \<and> mcolumns df = columns (snd (hd d))"
  by (cases d) (auto simp: concat_frames_def)


lemma length_concat_blocks:
  "\<forall>(k, s)\<in>set d. length (rows s) = length (index s)
     \<Longrightarrow> length (concat (map (\<lambda>(k, df). rows df) d))
         = length (concat (map (\<lambda>(k, df). map (\<lambda>t. (k :: int, t)) (index df)) d))"
proof (induction d)
  case Nil
  then show ?case by simp
next
  case (Cons a d)
  obtain k s where a: "a = (k, s)" by (cases a)
  show ?case
    using Cons a by simp
qed

lemma zip_block_set:
  "set (zip (map (\<lambda>t. (k, t)) ix) rs) = {((k', t), r). k' = k \<and> (t, r) \<in> set (zip ix rs)}"
  by (auto simp: zip_map1)

lemma zip_blocks_set:
  "set (concat (map (\<lambda>(k, df). zip (map (\<lambda>t. (k :: int, t)) (index df)) (rows df)) d))
     = {((k, t), r). \<exists>s. (k, s) \<in> set d \<and> (t, r) \<in> set (zip (index s) (rows s))}"
proof (induction d)
  case Nil
  then show ?case by simp
next
  case (Cons a d)
  obtain k s where a: "a = (k, s)" by (cases a)
  show ?case
    using Cons a by (auto simp: zip_block_set)
qed

subsection \<open>A call without a diagnostics dictionary\<close>

lemma build_without_diagnostics:
  assumes ev: "sorted_wrt (<) (index ev)" and gd: "sorted_wrt (<) (index gd)"
      and wf: "length (rows gd) = length (index gd)"
      and ne: "items rgi \<noteq> []"
      and cov: "\<forall>k\<in>set (items rgi). intersection (index ev) (index (shift gd (- k) f)) \<noteq> []"
  shows "\<exists>df. result (build_local_timeseries (PyDataFrame ev) (PyDataFrame gd) rgi f None)
               = Inr df
           \<and> set (zip (mindex df) (mrows df))
               = {((k, t), r). k \<in> set (items rgi) \<and> t \<in> set (index ev)
                    \<and> (t, r) \<in> set (zip (index (shift gd (- k) f))
                                         (rows (shift gd (- k) f)))}
           \<and> length (mrows df) = length (mindex df)
           \<and> mcolumns df = columns gd
           \<and> set (warnings (build_local_timeseries (PyDataFrame ev) (PyDataFrame gd)
                               rgi f None))
               = (\<Union>k\<in>set (items rgi).
                    set (snd (snd (shift_and_select (index ev) gd (- k) f None))))"
proof -
  let ?ks = "sort (items rgi)"
  let ?st0 = "\<lparr>relative_data = [], info = None, log = []\<rparr> :: 'a loop_state"
  have dg: "distinct (index gd)"
    using gd strict_sorted_iff by blast
  have cov': "\<forall>k\<in>set ?ks. intersection (index ev) (index (shift gd (- k) f)) \<noteq> []"
    using cov by simp
  obtain st' where g: "gather (index ev) gd f ?ks ?st0 = (None, st')"
      and s: "sorted_wrt (<) (map fst (relative_data st'))"
      and ks: "fst ` set (relative_data st') = set (items rgi)"
      and inv: "\<forall>(k, s)\<in>set (relative_data st').
                  fst (shift_and_select (index ev) gd (- k) f None) = Inr s"
      and lg: "set (log st')
                = (\<Union>k\<in>set (items rgi).
                     set (snd (snd (shift_and_select (index ev) gd (- k) f None))))"
    using gather_no_info[OF dg wf cov', of ?st0] by auto
  let ?d = "relative_data st'"
  have frames: "\<And>k s. (k, s) \<in> set ?d \<Longrightarrow>
        index s = intersection (index ev) (index (shift gd (- k) f))
        \<and> columns s = columns gd
        \<and> length (rows s) = length (index s)
        \<and> set (zip (index s) (rows s))
            = {(t, r). (t, r) \<in> set (zip (index (shift gd (- k) f)) (rows (shift gd (- k) f)))
                       \<and> t \<in> set (index ev)}"
    using inv sas_Inr[OF dg wf] by blast
  have d_ne: "?d \<noteq> []"
    using ks ne by auto
  then obtain df where c: "concat_frames ?d = Inr df"
      and mi: "mindex df = concat (map (\<lambda>(k, df). map (\<lambda>t. (k, t)) (index df)) ?d)"
      and mr: "mrows df = concat (map (\<lambda>(k, df). rows df) ?d)"
      and mc: "mcolumns df = columns (snd (hd ?d))"
    using concat_frames_Inr by blast
  have strict: "sorted_wrt (<) (mindex df)"
    unfolding mi
  proof (rule concat_keys_strict[OF s])
    show "\<forall>(k, s)\<in>set ?d. sorted_wrt (<) (index s)"
      using frames ev by (auto simp: intersection_strict)
  qed
  have res: "result (build_local_timeseries (PyDataFrame ev) (PyDataFrame gd) rgi f None)
               = Inr df"
    using ev gd ne g c strict
    by (simp add: build_local_timeseries_def dassert_monotonic_index_def Let_def)
  have wn: "warnings (build_local_timeseries (PyDataFrame ev) (PyDataFrame gd) rgi f None)
              = log st'"
    using ev gd ne g
    by (simp add: build_local_timeseries_def dassert_monotonic_index_def Let_def)
  have lens: "\<forall>(k, s)\<in>set ?d. length (rows s) = length (index s)"
    using frames by blast
  have z: "zip (mindex df) (mrows df)
             = concat (map (\<lambda>(k, df). zip (map (\<lambda>t. (k, t)) (index df)) (rows df)) ?d)"
    unfolding mi mr using lens by (rule zip_concat_blocks)
  have zs: "set (zip (mindex df) (mrows df))
              = {((k, t), r). \<exists>s. (k, s) \<in> set ?d \<and> (t, r) \<in> set (zip (index s) (rows s))}"
    unfolding z by (rule zip_blocks_set)
  have key: "\<And>k. k \<in> set (items rgi) \<longleftrightarrow> (\<exists>s. (k, s) \<in> set ?d)"
    using ks by (metis fst_conv image_iff prod.collapse)
  have rows_eq: "set (zip (mindex df) (mrows df))
               = {((k, t), r). k \<in> set (items rgi) \<and> t \<in> set (index ev)
                    \<and> (t, r) \<in> set (zip (index (shift gd (- k) f))
                                         (rows (shift gd (- k) f)))}"
    unfolding zs using frames key by blast
  have len: "length (mrows df) = length (mindex df)"
    unfolding mi mr using lens by (rule length_concat_blocks)
  have "hd ?d \<in> set ?d"
    using d_ne by simp
  then have "(fst (hd ?d), snd (hd ?d)) \<in> set ?d"
    by simp
  then have cols: "mcolumns df = columns gd"
    unfolding mc using frames by blast
  show ?thesis
  proof (intro exI conjI)
    show "result (build_local_timeseries (PyDataFrame ev) (PyDataFrame gd) rgi f None)
               = Inr df" by (rule res)
    show "set (warnings (build_local_timeseries (PyDataFrame ev) (PyDataFrame gd)
                               rgi f None))
               = (\<Union>k\<in>set (items rgi).
                    set (snd (snd (shift_and_select (index ev) gd (- k) f None))))"
      unfolding wn by (rule lg)
  qed (rule rows_eq len cols)+
qed


text \<open>
  Without a diagnostics dictionary a coverage under nine tenths is not fatal: when every
  offset finds at least one event, the call returns; an offset that finds fewer than
  nine tenths of the events leaves its warning in the log, and its rows, those of the
  shifted grid at the event timestamps, are in the table under that offset.
\<close>

lemma shortfall_without_diagnostics:
  assumes ev: "sorted_wrt (<) (index ev)" and gd: "sorted_wrt (<) (index gd)"
      and wf: "length (rows gd) = length (index gd)"
      and cov: "\<forall>k\<in>set (items rgi). intersection (index ev) (index (shift gd (- k) f)) \<noteq> []"
      and k: "k \<in> set (items rgi)"
      and low: "10 * length (intersection (index ev) (index (shift gd (- k) f)))
                  < 9 * length (index ev)"
  shows "\<exists>df. result (build_local_timeseries (PyDataFrame ev) (PyDataFrame gd) rgi f None)
               = Inr df
           \<and> Warning (length (intersection (index ev) (index (shift gd (- k) f))))
                 (length (index ev)) (- k)
               \<in> set (warnings (build_local_timeseries (PyDataFrame ev) (PyDataFrame gd)
                                  rgi f None))
           \<and> (\<forall>t\<in>set (intersection (index ev) (index (shift gd (- k) f))).
                 (k, t) \<in> set (mindex df))
           \<and> (\<forall>t r. t \<in> set (index ev)
                    \<and> (t, r) \<in> set (zip (index (shift gd (- k) f)) (rows (shift gd (- k) f)))
                  \<longrightarrow> ((k, t), r) \<in> set (zip (mindex df) (mrows df)))"
proof -
  let ?B = "build_local_timeseries (PyDataFrame ev) (PyDataFrame gd) rgi f None"
  let ?sh = "shift gd (- k) f"
  let ?is = "intersection (index ev) (index ?sh)"
  have ne: "items rgi \<noteq> []" using k by auto
  have dg: "distinct (index gd)"
    using gd strict_sorted_iff by blast
  obtain df where res: "result ?B = Inr df"
      and rows_eq: "set (zip (mindex df) (mrows df))
               = {((k, t), r). k \<in> set (items rgi) \<and> t \<in> set (index ev)
                    \<and> (t, r) \<in> set (zip (index (shift gd (- k) f))
                                         (rows (shift gd (- k) f)))}"
      and wn: "set (warnings ?B)
               = (\<Union>k\<in>set (items rgi).
                    set (snd (snd (shift_and_select (index ev) gd (- k) f None))))"
    using build_without_diagnostics[OF ev gd wf ne cov] by blast
  have "?is \<noteq> []" using cov k by blast
  then have "snd (snd (shift_and_select (index ev) gd (- k) f None))
               = [Warning (length ?is) (length (index ev)) (- k)]"
    using sas_no_info[OF dg wf, of "index ev" "- k" f] low by auto
  then have w: "Warning (length ?is) (length (index ev)) (- k) \<in> set (warnings ?B)"
    unfolding wn using k by force
  have r: "\<forall>t r. t \<in> set (index ev) \<and> (t, r) \<in> set (zip (index ?sh) (rows ?sh))
                  \<longrightarrow> ((k, t), r) \<in> set (zip (mindex df) (mrows df))"
    unfolding rows_eq using k by blast
  have m: "\<forall>t\<in>set ?is. (k, t) \<in> set (mindex df)"
  proof
    fix t assume t: "t \<in> set ?is"
    then have "t \<in> set (index ev)" and "t \<in> set (index ?sh)"
      by (simp_all add: set_intersection)
    moreover obtain r where "(t, r) \<in> set (zip (index ?sh) (rows ?sh))"
      using \<open>t \<in> set (index ?sh)\<close> shift_wf[OF wf, of "- k" f]
      by (metis in_set_impl_in_set_zip1)
    ultimately have "((k, t), r) \<in> set (zip (mindex df) (mrows df))"
      using r by blast
    then show "(k, t) \<in> set (mindex df)"
      by (rule set_zip_leftD)
  qed
  show ?thesis
    using res w m r by blast
qed

subsection \<open>Order of the two-level index\<close>

lemma strict_pairs_sorted_fst:
  "sorted_wrt (<) (ps :: (int \<times> int) list) \<Longrightarrow> sorted (map fst ps)"
  by (induction ps) (auto simp: less_prod_def less_eq_prod_def)

subsection \<open>Reindexing\<close>





















































subsection \<open>The regression never reaches its return\<close>

lemma np_getattr_mat_mul: "np_getattr ''mat_mul'' = Inl AttributeError"
  by (simp add: np_getattr_def numpy_attributes_def)

lemma regression_raises: "\<exists>e. fst (regression np x y info0) = Inl e"
  by (auto simp: regression_def Let_def np_getattr_mat_mul split: sum.splits prod.splits)

text \<open>
  When the index of \<open>x\<close> is that of \<open>y\<close>, no diagnostics are asked for and none of
  numpy's routines raises, the exception is the \<^verbatim>\<open>AttributeError\<close> of line 251.
\<close>

lemma regression_AttributeError:
  assumes "index x = sindex y"
      and "np_lstsq np (select (map (\<lambda>v. v \<noteq> None) (svalues y)) (rows x))
             (select (map (\<lambda>v. v \<noteq> None) (svalues y)) (svalues y)) = Inr (b, r)"
      and "np_xtx_inv np (select (map (\<lambda>v. v \<noteq> None) (svalues y)) (rows x)) = Inr m"
      and "np_multiply np m (np_divide np r
             (int (length (filter id (map (\<lambda>v. v \<noteq> None) (svalues y))))
                - int (length (columns x)))) = Inr c"
      and "np_z_score np b (np_divide np r
             (int (length (filter id (map (\<lambda>v. v \<noteq> None) (svalues y))))
                - int (length (columns x)))) m = Inr z"
  shows "fst (regression np x y None) = Inl AttributeError"
  using assms
  by (simp add: regression_def Let_def np_getattr_mat_mul align_mask_def fill_reg_info_def)

section \<open>Claims about \<^verbatim>\<open>build_local_timeseries\<close>\<close>

text \<open>
  Claim C3. If, for some offset \<open>k\<close> of the collection, the events index and the index
  of the grid shifted by \<open>- k\<close> have no timestamp in common, then
  \<^verbatim>\<open>build_local_timeseries\<close> raises: the call yields an exception and no table, not even
  the blocks of the offsets that did intersect. The exception is the failed assertion,
  or, when a diagnostics dictionary was passed, possibly the \<^verbatim>\<open>NameError\<close> of an earlier
  offset.
\<close>

theorem empty_intersection_aborts:
  assumes "k \<in> set (items relative_grid_indices)"
      and "intersection (index ev) (index (shift gd (- k) freq)) = []"
  shows "result (build_local_timeseries (PyDataFrame ev) (PyDataFrame gd)
                   relative_grid_indices freq info0) = Inl AssertionError
       \<or> (info0 \<noteq> None \<and>
          result (build_local_timeseries (PyDataFrame ev) (PyDataFrame gd)
                   relative_grid_indices freq info0) = Inl NameError)"
proof -
  let ?ks = "sort (items relative_grid_indices)"
  let ?st0 = "\<lparr>relative_data = [], info = info0, log = []\<rparr> :: 'a loop_state"
  obtain err st where g: "gather (index ev) gd freq ?ks ?st0 = (err, st)"
    by (cases "gather (index ev) gd freq ?ks ?st0") auto
  have "k \<in> set ?ks" using assms(1) by simp
  then have "fst (gather (index ev) gd freq ?ks ?st0) \<noteq> None"
    using assms(2) by (rule gather_empty_fails)
  then obtain e where e: "err = Some e" using g by auto
  then have "e = AssertionError \<or> (e = NameError \<and> info0 \<noteq> None)"
    using gather_error_kinds[of "index ev" gd freq ?ks ?st0 e] g by simp
  then show ?thesis
    using g e by (auto simp: build_local_timeseries_def Let_def)
qed

theorem empty_intersection_aborts_witness:
  "3 \<in> set (items (PyTuple [3, 0]))
   \<and> intersection (index events_ex) (index (shift grid_gap_ex (- 3) (Some 1))) = []
   \<and> result (build_local_timeseries (PyDataFrame events_ex) (PyDataFrame grid_gap_ex)
               (PyTuple [3, 0]) (Some 1) None) = Inl AssertionError"
proof -
  have h1: "3 \<in> set (items (PyTuple [3, 0]))" by simp
  have h2: "intersection (index events_ex) (index (shift grid_gap_ex (- 3) (Some 1))) = []"
    by (simp add: intersection_def shift_def events_ex_def grid_gap_ex_def)
  show ?thesis
    using h1 h2 empty_intersection_aborts [OF h1 h2, of None] by simp
qed

text \<open>
  Claim C5. Two offset collections that are permutations of each other give the same
  result (the same table or the same exception), and also the same diagnostics and the
  same warnings; in particular \<open>[1, -2, 0]\<close> and \<open>[-2, 0, 1]\<close> do.
\<close>

theorem offset_order_irrelevant:
  assumes "mset (items a) = mset (items b)"
  shows "result (build_local_timeseries events grid_data a freq info0)
           = result (build_local_timeseries events grid_data b freq info0)
       \<and> info_after (build_local_timeseries events grid_data a freq info0)
           = info_after (build_local_timeseries events grid_data b freq info0)
       \<and> warnings (build_local_timeseries events grid_data a freq info0)
           = warnings (build_local_timeseries events grid_data b freq info0)"
proof -
  have s: "sort (items a) = sort (items b)"
    using assms by (rule sort_cong_mset)
  have e: "(items a = []) = (items b = [])"
    using assms by (rule mset_eq_Nil_iff)
  show ?thesis
    by (cases events; cases grid_data)
       (simp_all add: build_local_timeseries_def Let_def s e split: prod.splits)
qed

theorem offset_order_irrelevant_witness:
  "mset (items (PyList [1, - 2, 0])) = mset (items (PyList [- 2, 0, 1]))
   \<and> result (build_local_timeseries (PyDataFrame events_ex) (PyDataFrame grid_ex)
               (PyList [1, - 2, 0]) None None)
       = result (build_local_timeseries (PyDataFrame events_ex) (PyDataFrame grid_ex)
                   (PyList [- 2, 0, 1]) None None)"
proof -
  have h: "mset (items (PyList [1, - 2, 0])) = mset (items (PyList [- 2, 0, 1]))"
    by simp
  show ?thesis
    using h offset_order_irrelevant [OF h] by blast
qed

text \<open>
  Claim C8. When \<^verbatim>\<open>events\<close> or \<^verbatim>\<open>grid_data\<close> is not a table, or the index of either is
  not strictly increasing, or the offset collection is empty, the call raises the
  assertion error before doing anything else: nothing is logged, and the caller's
  offset collection and diagnostics dictionary are as they were.
\<close>

theorem precondition_violation_fails:
  assumes "events = PyOther \<or> grid_data = PyOther
         \<or> (\<exists>ev. events = PyDataFrame ev \<and> \<not> sorted_wrt (<) (index ev))
         \<or> (\<exists>gd. grid_data = PyDataFrame gd \<and> \<not> sorted_wrt (<) (index gd))
         \<or> items relative_grid_indices = []"
  shows "build_local_timeseries events grid_data relative_grid_indices freq info0
           = \<lparr>result = Inl AssertionError, events_after = events,
               grid_data_after = grid_data, rgi_after = relative_grid_indices,
               info_after = info0, warnings = []\<rparr>"
  using assms
  by (cases events; cases grid_data)
     (auto simp add: build_local_timeseries_def dassert_monotonic_index_def Let_def)

theorem precondition_violation_fails_witness:
  "\<not> sorted_wrt (<) (index events_unsorted_ex)
   \<and> build_local_timeseries (PyDataFrame events_unsorted_ex) (PyDataFrame grid_ex)
        (PyList [1, 0]) None (Some [])
       = \<lparr>result = Inl AssertionError,
           events_after = PyDataFrame events_unsorted_ex,
           grid_data_after = PyDataFrame grid_ex, rgi_after = PyList [1, 0],
           info_after = Some [], warnings = []\<rparr>
   \<and> build_local_timeseries (PyDataFrame events_ex) (PyOther :: int pyobj)
        (PyList [1, 0]) None None
       = \<lparr>result = Inl AssertionError, events_after = PyDataFrame events_ex,
           grid_data_after = PyOther, rgi_after = PyList [1, 0],
           info_after = None, warnings = []\<rparr>
   \<and> build_local_timeseries (PyDataFrame events_ex) (PyDataFrame grid_ex)
        (PyList []) None None
       = \<lparr>result = Inl AssertionError, events_after = PyDataFrame events_ex,
           grid_data_after = PyDataFrame grid_ex, rgi_after = PyList [],
           info_after = None, warnings = []\<rparr>"
proof -
  have h: "\<not> sorted_wrt (<) (index events_unsorted_ex)"
    by (simp add: events_unsorted_ex_def)
  show ?thesis
    using h
      precondition_violation_fails [of "PyDataFrame events_unsorted_ex"
        "PyDataFrame grid_ex" "PyList [1, 0]" None "Some []"]
      precondition_violation_fails [of "PyDataFrame events_ex" "PyOther :: int pyobj"
        "PyList [1, 0]" None None]
      precondition_violation_fails [of "PyDataFrame events_ex" "PyDataFrame grid_ex"
        "PyList []" None None]
    by simp
qed

text \<open>
  Claim C4. Whenever \<^verbatim>\<open>build_local_timeseries\<close> returns a table, the sequence of its
  (offset, timestamp) keys is non-decreasing in the lexicographic order, and the
  offsets, the outer key, are ascending.
\<close>

theorem composite_key_monotonic:
  assumes "result (build_local_timeseries events grid_data rgi freq info0) = Inr df"
  shows "sorted (mindex df) \<and> sorted (map fst (mindex df))"
proof -
  have "sorted_wrt (<) (mindex df)"
    using assms
    by (cases events; cases grid_data)
       (auto simp: build_local_timeseries_def Let_def dassert_monotonic_index_def
          split: if_splits prod.splits option.splits sum.splits)
  then show ?thesis
    by (simp add: strict_pairs_sorted_fst strict_sorted_imp_sorted)
qed

theorem composite_key_monotonic_witness:
  "result (build_local_timeseries (PyDataFrame events_ex) (PyDataFrame grid_ex)
             (PyList [1, - 2, 0]) None None)
     = Inr \<lparr>mindex = [(- 2, 1), (- 2, 2), (- 2, 3), (0, 1), (0, 2), (0, 3),
                      (1, 1), (1, 2), (1, 3)],
             mcolumns = [''response''],
             mrows = [ [None], [None], [Some 10], [Some 10], [Some 20], [Some 30],
                      [Some 20], [Some 30], [Some 40] ]\<rparr>
   \<and> sorted [(- 2, 1), (- 2, 2), (- 2, 3), (0, 1), (0, 2), (0, 3),
              (1, 1), (1, 2), (1 :: int, 3 :: int)]
   \<and> sorted (map fst [(- 2, 1), (- 2, 2), (- 2, 3), (0, 1), (0, 2), (0, 3),
                       (1, 1), (1, 2), (1 :: int, 3 :: int)])"
proof -
  have h: "result (build_local_timeseries (PyDataFrame events_ex) (PyDataFrame grid_ex)
             (PyList [1, - 2, 0]) None None)
     = Inr \<lparr>mindex = [(- 2, 1), (- 2, 2), (- 2, 3), (0, 1), (0, 2), (0, 3),
                      (1, 1), (1, 2), (1, 3)],
             mcolumns = [''response''],
             mrows = [ [None], [None], [Some 10], [Some 10], [Some 20], [Some 30],
                      [Some 20], [Some 30], [Some 40] ]\<rparr>"
    by code_simp
  show ?thesis
    using h composite_key_monotonic [OF h] by simp
qed

text \<open>
  Claim C2, as the code has it. Three events, a grid that misses the third, offset 0
  and an empty diagnostics dictionary: the call raises \<^verbatim>\<open>NameError\<close> at the read of
  \<^verbatim>\<open>mode\<close> and the caller's dictionary stays empty. The inner dictionary at that moment
  holds an empty index under \<^verbatim>\<open>indices_with_no_data\<close>, where the events index minus the
  intersection is \<open>[3]\<close>.
\<close>

theorem diagnostics_container_left_empty:
  "build_local_timeseries (PyDataFrame events_ex) (PyDataFrame grid_gap_ex)
      (PyList [0]) None (Some [])
     = \<lparr>result = Inl NameError, events_after = PyDataFrame events_ex,
         grid_data_after = PyDataFrame grid_gap_ex, rgi_after = PyList [0],
         info_after = Some [], warnings = [Warning 2 3 0]\<rparr>
   \<and> shift_and_select (index events_ex) grid_gap_ex 0 None (Some [])
       = (Inl NameError,
          Some [(''indices_with_no_data'', IndexVal []), (''periods'', IntVal 0)],
          [Warning 2 3 0])
   \<and> difference (index events_ex)
        (intersection (index events_ex) (index (shift grid_gap_ex 0 None))) = [3]"
  by code_simp

text \<open>
  Claim C6, as the code has it. Offset 1 with a frequency of one tick finds one of the
  three events, a coverage under nine tenths. Without a diagnostics dictionary the call
  returns a table; with an empty diagnostics dictionary the same call raises
  \<^verbatim>\<open>NameError\<close> on that offset.
\<close>

theorem shortfall_with_diagnostics_is_fatal:
  "intersection (index events_ex) (index (shift grid_gap_ex (- 1) (Some 1))) = [1]
   \<and> 10 * length [1 :: int] < 9 * length (index events_ex)
   \<and> result (build_local_timeseries (PyDataFrame events_ex) (PyDataFrame grid_gap_ex)
               (PyTuple [1]) (Some 1) (Some [])) = Inl NameError
   \<and> result (build_local_timeseries (PyDataFrame events_ex) (PyDataFrame grid_gap_ex)
               (PyTuple [1]) (Some 1) None)
       = Inr \<lparr>mindex = [(1, 1)], mcolumns = [''response''], mrows = [ [Some 20] ]\<rparr>"
  by code_simp

text \<open>
  Claim C10, amended. After every call the events table and the grid table are the
  objects the caller passed, unchanged, and so is an offset collection that is not a
  list. An offset collection passed as a list is sorted in place, ascending, once the
  input checks have passed, and is unchanged when a check fails.
\<close>

theorem caller_objects_after_call:
  "events_after (build_local_timeseries events grid_data rgi freq info0) = events
   \<and> grid_data_after (build_local_timeseries events grid_data rgi freq info0) = grid_data
   \<and> rgi_after (build_local_timeseries events grid_data rgi freq info0)
       = (case rgi of
            PyTuple xs \<Rightarrow> PyTuple xs
          | PyList xs \<Rightarrow>
              if input_checks_pass events grid_data rgi then PyList (sort xs)
              else PyList xs)"
  by (cases events; cases grid_data; cases rgi)
     (simp_all add: input_checks_pass_def build_local_timeseries_def Let_def
        split: prod.splits)

theorem caller_objects_after_call_witness:
  "rgi_after (build_local_timeseries (PyDataFrame events_ex) (PyDataFrame grid_ex)
                (PyList [1, - 2, 0]) None None) = PyList [- 2, 0, 1]
   \<and> rgi_after (build_local_timeseries (PyDataFrame events_ex) (PyDataFrame grid_ex)
                (PyTuple [1, - 2, 0]) None None) = PyTuple [1, - 2, 0]
   \<and> rgi_after (build_local_timeseries (PyDataFrame events_unsorted_ex)
                (PyDataFrame grid_ex) (PyList [1, - 2, 0]) None None) = PyList [1, - 2, 0]"
proof -
  have a: "input_checks_pass (PyDataFrame events_ex) (PyDataFrame grid_ex)
             (PyList [1, - 2, 0])"
    by (simp add: input_checks_pass_def dassert_monotonic_index_def events_ex_def
          grid_ex_def)
  have b: "\<not> input_checks_pass (PyDataFrame events_unsorted_ex) (PyDataFrame grid_ex)
             (PyList [1, - 2, 0])"
    by (simp add: input_checks_pass_def dassert_monotonic_index_def events_unsorted_ex_def)
  have c: "sort [1, - 2, 0 :: int] = [- 2, 0, 1]"
    by code_simp
  show ?thesis
    using a b c
      caller_objects_after_call [of "PyDataFrame events_ex" "PyDataFrame grid_ex"
        "PyList [1, - 2, 0]" None None]
      caller_objects_after_call [of "PyDataFrame events_ex" "PyDataFrame grid_ex"
        "PyTuple [1, - 2, 0]" None None]
      caller_objects_after_call [of "PyDataFrame events_unsorted_ex" "PyDataFrame grid_ex"
        "PyList [1, - 2, 0]" None None]
    by simp
qed

text \<open>The claim as it was stated fails: the list \<open>[1, -2, 0]\<close> is not what it was.\<close>

theorem caller_list_is_sorted_in_place:
  "rgi_after (build_local_timeseries (PyDataFrame events_ex) (PyDataFrame grid_ex)
                (PyList [1, - 2, 0]) None None) \<noteq> PyList [1, - 2, 0]"
  by code_simp

section \<open>Claim about \<^verbatim>\<open>reindex_event_features\<close>\<close>




section \<open>Claims about \<^verbatim>\<open>regression\<close>\<close>

text \<open>
  Claim C1, as the code has it. For every design matrix, every response, every
  diagnostics argument and every behaviour of numpy's routines, \<^verbatim>\<open>regression\<close> raises
  an exception: no call returns fitted values. The last statement before the return
  reads \<^verbatim>\<open>np.mat_mul\<close>, which numpy does not have.
\<close>

theorem regression_never_returns:
  "\<exists>e. fst (regression np x y info0) = Inl e"
proof (cases "fst (regression np x y info0)")
  case (Inl e)
  then show ?thesis by blast
next
  case (Inr fitted)
  then have "np_getattr ''mat_mul'' \<noteq> Inl AttributeError"
    by (auto simp: regression_def Let_def split: sum.splits prod.splits)
  then show ?thesis
    by (simp add: np_getattr_mat_mul)
qed

text \<open>
  Claim C7. When the number of responses that are not NaN equals the number of
  predictor columns, \<^verbatim>\<open>regression\<close> raises an exception and returns nothing. The
  function does not compare the two numbers; the exception is that of one of numpy's
  routines or, at the latest, that of the last statement before the return.
\<close>

theorem zero_dof_raises:
  assumes "length (filter (\<lambda>v. v \<noteq> None) (svalues y)) = length (columns x)"
  shows "\<exists>e. fst (regression np x y info0) = Inl e"
  by (rule regression_raises)

theorem zero_dof_raises_witness:
  "\<forall>np. length (filter (\<lambda>v. v \<noteq> None) (svalues y_one_ex)) = length (columns x_ex)
      \<and> (\<exists>e. fst (regression np x_ex y_one_ex None) = Inl e)"
proof
  fix np :: "int numpy"
  have h: "length (filter (\<lambda>v. v \<noteq> None) (svalues y_one_ex)) = length (columns x_ex)"
    by (simp add: y_one_ex_def x_ex_def)
  show "length (filter (\<lambda>v. v \<noteq> None) (svalues y_one_ex)) = length (columns x_ex)
      \<and> (\<exists>e. fst (regression np x_ex y_one_ex None) = Inl e)"
    using h zero_dof_raises [OF h, of np None] by simp
qed

end
